theory Spec2Isabelle
  imports Main
begin

section \<open>JavaScript values\<close>

text \<open>
  The values that flow through the middleware: actions, dispatched values and error
  values. An object carries its kind (plain object, \<open>Error\<close> instance or function) and
  its own properties in declaration order.
\<close>

datatype kind = Plain | ErrorInst | Function

datatype val =
    Undefined
  | Null
  | Bool bool
  | Num int
  | Str string
  | Object kind "(string \<times> val) list"

text \<open>JavaScript truthiness, as used by \<open>!x\<close>, \<open>x && y\<close>, \<open>x || y\<close> and \<open>if (x)\<close>.\<close>

fun truthy :: "val \<Rightarrow> bool" where
  "truthy Undefined = False"
| "truthy Null = False"
| "truthy (Bool b) = b"
| "truthy (Num n) = (n \<noteq> 0)"
| "truthy (Str s) = (s \<noteq> [])"
| "truthy (Object k fs) = True"

text \<open>
  Property read \<open>v.k\<close>: a missing property, and any property of a primitive, reads as
  \<open>undefined\<close>. Reading a property of \<open>undefined\<close> or \<open>null\<close> throws in JavaScript; the
  source does so only behind a truthiness test (\<open>act && act.__interceptAction\<close>,
  \<open>if (!act)\<close> before \<open>act.type\<close>) or on the action that entered the middleware, which
  is an object, so those two rows are never reached.
\<close>

fun get :: "val \<Rightarrow> string \<Rightarrow> val" where
  "get (Object k fs) p = (case map_of fs p of Some x \<Rightarrow> x | None \<Rightarrow> Undefined)"
| "get v p = Undefined"

fun isError :: "val \<Rightarrow> bool" where
  "isError (Object ErrorInst fs) = True"
| "isError v = False"

text \<open>\<open>typeof v === 'object' || typeof v === 'function'\<close>; \<open>typeof null\<close> is \<open>'object'\<close>.\<close>

fun objectOrFunction :: "val \<Rightarrow> bool" where
  "objectOrFunction (Object k fs) = True"
| "objectOrFunction Null = True"
| "objectOrFunction v = False"

section \<open>The matcher (logicWrapper.js, matchesType)\<close>

text \<open>
  A regular expression is an object with a state: \<open>test\<close> of an expression that carries
  the \<open>g\<close> or \<open>y\<close> flag starts at the expression's \<open>lastIndex\<close>, sets it to the end of
  the match it finds, and sets it to 0 when it finds none; without those flags \<open>test\<close>
  starts at 0 and leaves \<open>lastIndex\<close> alone. An expression is given by its identity, by
  whether it carries one of the two flags, and by its search: \<open>exec i v\<close> is the index at
  which the match found in the string of \<open>v\<close>, searching from index \<open>i\<close>, ends. The
  \<open>lastIndex\<close> of every expression is kept in a table, by identity.
\<close>

record regex =
  rid :: nat
  advancing :: bool
  exec :: "nat \<Rightarrow> val \<Rightarrow> nat option"

type_synonym lastIndexes = "nat \<Rightarrow> nat"

definition test :: "regex \<Rightarrow> val \<Rightarrow> lastIndexes \<Rightarrow> bool \<times> lastIndexes" where
  "test r v h =
     (if advancing r then
        (case exec r (h (rid r)) v of
           Some e \<Rightarrow> (True, h(rid r := e))
         | None \<Rightarrow> (False, h(rid r := 0)))
      else (exec r 0 v \<noteq> None, h))"

text \<open>
  A type pattern is absent (\<open>undefined\<close> or \<open>null\<close>), a string, an array of patterns or a
  regular expression.
\<close>

datatype pattern =
    PAbsent
  | PStr string
  | PArr "pattern list"
  | PRe regex

text \<open>Truthiness of a pattern: the empty string is falsy, an array (even empty) is not.\<close>

fun patTruthy :: "pattern \<Rightarrow> bool" where
  "patTruthy PAbsent = False"
| "patTruthy (PStr s) = (s \<noteq> [])"
| "patTruthy (PArr xs) = True"
| "patTruthy (PRe r) = True"

text \<open>
  \<open>matchesType\<close> returns its answer and the table of \<open>lastIndex\<close> values it leaves.
  \<open>someMatches\<close> is \<open>tStrArrRe.some(x => matchesType(x, type))\<close>: the members are tried
  in order, and none after the first that matches.
\<close>

fun matchesType :: "pattern \<Rightarrow> val \<Rightarrow> lastIndexes \<Rightarrow> bool \<times> lastIndexes"
  and someMatches :: "pattern list \<Rightarrow> val \<Rightarrow> lastIndexes \<Rightarrow> bool \<times> lastIndexes" where
  "matchesType PAbsent ty h = (False, h)"
| "matchesType (PStr s) ty h = ((if s = [] then False else (Str s = ty \<or> s = ''*'')), h)"
| "matchesType (PArr xs) ty h = someMatches xs ty h"
| "matchesType (PRe r) ty h = test r ty h"
| "someMatches [] ty h = (False, h)"
| "someMatches (x # xs) ty h =
     (if fst (matchesType x ty h) then (True, snd (matchesType x ty h))
      else someMatches xs ty (snd (matchesType x ty h)))"





section \<open>Monitor events and the pending counter (createLogicMiddleware.js)\<close>

datatype opn =
    OpInit | OpTop | OpBegin | OpNext | OpNextDisp | OpDispatch | OpNextError | OpEnd
  | OpBottom | OpFiltered | OpDispatchError | OpCancelled | OpDispCancelled

text \<open>
  A monitor event: its \<open>op\<close>, the action it is about (\<open>action\<close>, \<open>undefined\<close> where
  the source passes none) and the second value the source attaches (\<open>dispAction\<close>,
  \<open>nextAction\<close> or \<open>err\<close>). The unit's name is left out.
\<close>

record mevent =
  op :: opn
  action :: val
  arg :: val

text \<open>
  The accumulator of \<open>monitor$.scan\<close>: \<open>top\<close> and \<open>begin\<close> add one; \<open>end\<close>, \<open>bottom\<close>,
  \<open>nextDisp\<close>, \<open>filtered\<close>, \<open>dispatchError\<close> and \<open>cancelled\<close> take one away; every other
  op leaves the counter as it is.
\<close>

fun delta :: "opn \<Rightarrow> int" where
  "delta OpTop = 1"
| "delta OpBegin = 1"
| "delta OpEnd = -1"
| "delta OpBottom = -1"
| "delta OpNextDisp = -1"
| "delta OpFiltered = -1"
| "delta OpDispatchError = -1"
| "delta OpCancelled = -1"
| "delta x = 0"

definition scanStep :: "int \<Rightarrow> mevent \<Rightarrow> int" where
  "scanStep pending x = pending + delta (op x)"

text \<open>The values of \<open>pending\<close> the scan emits, one per monitor event, seeded with 0.\<close>

fun pendings :: "int \<Rightarrow> mevent list \<Rightarrow> int list" where
  "pendings acc [] = []"
| "pendings acc (x # xs) = scanStep acc x # pendings (scanStep acc x) xs"

section \<open>Attaching the middleware to a store (createLogicMiddleware.js, mw)\<close>

text \<open>
  A store is an object, known by its identity; \<open>None\<close> stands for a missing (falsy)
  argument. \<open>savedStore\<close> starts out undefined.
\<close>

type_synonym store_ref = "nat option"

datatype mw_error = MultipleStores

definition mw :: "store_ref \<Rightarrow> store_ref \<Rightarrow> mw_error + store_ref" where
  "mw savedStore store =
     (if savedStore \<noteq> None \<and> savedStore \<noteq> store then Inl MultipleStores
      else Inr store)"

text \<open>Applying the middleware function to a list of stores, in order, stops at the first throw.\<close>

fun mw_all :: "store_ref \<Rightarrow> store_ref list \<Rightarrow> mw_error + store_ref" where
  "mw_all saved [] = Inr saved"
| "mw_all saved (s # ss) =
     (case mw saved s of Inl e \<Rightarrow> Inl e | Inr saved' \<Rightarrow> mw_all saved' ss)"

section \<open>Units, hooks and the downstream consumer\<close>

text \<open>
  \<open>successType\<close> and \<open>failType\<close>: absent, a literal type string, or an action creator.
\<close>

datatype typeOpt = NoType | TypeStr string | TypeFn "val \<Rightarrow> val"

fun configured :: "typeOpt \<Rightarrow> bool" where
  "configured NoType = False"
| "configured (TypeStr s) = (s \<noteq> [])"
| "configured (TypeFn f) = True"

text \<open>
  What a hook hands to \<open>dispatch\<close>: an observable, a promise, or any other value. An
  observable is given by what it does when subscribed: the values it emits at once and
  whether it then completes, fails, or stays open to notify later. A promise settles later.
\<close>

datatype fin = Completes | Errors val | StaysOpen

datatype dval = DObs "val list" fin | DPromise | DVal val

text \<open>The \<open>{allowMore}\<close> option of \<open>dispatch\<close> and the \<open>{useDispatch}\<close> option of allow/reject.\<close>

type_synonym dopts = "bool option"

datatype useDispatch = Auto | Use bool

type_synonym aopts = "useDispatch option"

text \<open>
  Code of the user (a hook, the consumer's \<open>next\<close>) runs in the middle of the core's
  work and may hold on to what earlier instances were given or had dispatched: their
  \<open>dispatch\<close> and \<open>done\<close>, and the streams and promises in their queues. A call on the
  queue of the instance with a given number, made from such code:
\<close>

datatype qevent =
    QDispatch nat dval dopts
  | QDone nat
  | QNext nat val
  | QError nat val
  | QComplete nat

text \<open>
  The synchronous run of a process hook: its calls to \<open>dispatch\<close> and \<open>done\<close> and what it
  does to the queues of other instances, in order, and then its return value or the
  exception it throws.
\<close>

datatype cmd = CallDispatch dval dopts | CallDone | Poke qevent

datatype outcome = Returns dval | Throws val

text \<open>
  The synchronous run of an intercept hook (\<open>validate\<close> or \<open>transform\<close>): its calls to
  \<open>allow\<close> and \<open>reject\<close> and what it does to the queues of other instances, in order, and
  then the exception it throws, if any. A hook that answers later makes no call to
  \<open>allow\<close> or \<open>reject\<close> here.
\<close>

datatype icmd = CallAllow val aopts | CallReject val aopts | IPoke qevent

text \<open>
  A unit as \<open>createLogic\<close> hands it over. \<open>debounce\<close> and \<open>throttle\<close> are 0 throughout,
  which makes \<open>limiting\<close> the identity.
\<close>

record logic =
  ltype :: pattern
  cancelType :: pattern
  latest :: bool
  intercept :: "val \<Rightarrow> icmd list \<times> val option"
  process :: "val \<Rightarrow> cmd list \<times> outcome"
  dispatchReturn :: bool
  dispatchMultiple :: bool
  successType :: typeOpt
  failType :: typeOpt

text \<open>
  The consumer: \<open>store.dispatch\<close> and \<open>next\<close>, each of which may throw; \<open>Some e\<close> is the
  exception thrown for that action. \<open>nextPokes\<close> is what the code behind \<open>next\<close> does to the
  queues of instances while it handles the action. An action that the code behind
  \<open>store.dispatch\<close> or \<open>next\<close> sends into the middleware again is a later \<open>Incoming\<close>.
\<close>

record store =
  dispatchThrows :: "val \<Rightarrow> val option"
  nextThrows :: "val \<Rightarrow> val option"
  nextPokes :: "val \<Rightarrow> qevent list"

text \<open>
  What the core does to the outside, in the order it does it. \<open>Side q\<close> marks the place
  at which code of the user makes the call \<open>q\<close>; \<open>Escapes e\<close> is an exception that leaves the
  core, towards whoever sent the action in.
\<close>

datatype effect =
    Monitor mevent
  | StoreDispatch val
  | Forward val
  | NextCall val
  | ConsoleError
  | ProcessCalled val
  | Side qevent
  | Escapes val

section \<open>Mapping drained values to actions (createLogicAction$.js)\<close>

definition typeVal :: "typeOpt \<Rightarrow> val" where
  "typeVal t = (case t of TypeStr s \<Rightarrow> Str s | _ \<Rightarrow> Undefined)"

fun mapToAction :: "typeOpt \<Rightarrow> val \<Rightarrow> bool \<Rightarrow> val" where
  "mapToAction (TypeFn f) payload err = f payload"
| "mapToAction t payload err =
     Object Plain ([(''type'', typeVal t), (''payload'', payload)]
                   @ (if err then [(''error'', Bool True)] else []))"

definition unhandled :: "val \<Rightarrow> val" where
  "unhandled v =
     Object Plain [(''type'', Str ''UNHANDLED_LOGIC_ERROR''), (''payload'', v),
                   (''error'', Bool True)]"

definition wrapActionForIntercept :: "val \<Rightarrow> val" where
  "wrapActionForIntercept act =
     (if \<not> truthy act then act else Object Plain [(''__interceptAction'', act)])"

definition isInterceptAction :: "val \<Rightarrow> bool" where
  "isInterceptAction act = (truthy act \<and> truthy (get act ''__interceptAction''))"

definition unwrapInterceptAction :: "val \<Rightarrow> val" where
  "unwrapInterceptAction act = get act ''__interceptAction''"

text \<open>
  \<open>storeDispatch\<close> reports the dispatch on the monitor and calls \<open>store.dispatch\<close>; nothing
  in it catches what the store throws, so the exception (second component) leaves it.
\<close>

definition storeDispatch :: "store \<Rightarrow> val \<Rightarrow> val \<Rightarrow> effect list \<times> val option" where
  "storeDispatch st a act =
     ([Monitor \<lparr>op = OpDispatch, action = a, arg = act\<rparr>, StoreDispatch act],
      dispatchThrows st act)"

definition mapToActionAndDispatch ::
  "logic \<Rightarrow> store \<Rightarrow> val \<Rightarrow> val \<Rightarrow> effect list \<times> val option" where
  "mapToActionAndDispatch lg st a v =
     (let act = (if isInterceptAction v then unwrapInterceptAction v
                 else if configured (successType lg) then mapToAction (successType lg) v False
                 else v)
      in if truthy act then storeDispatch st a act else ([], None))"

definition mapErrorToActionAndDispatch ::
  "logic \<Rightarrow> store \<Rightarrow> val \<Rightarrow> val \<Rightarrow> effect list \<times> val option" where
  "mapErrorToActionAndDispatch lg st a v =
     (if isInterceptAction v then storeDispatch st a (unwrapInterceptAction v)
      else if configured (failType lg) then
        (let act = mapToAction (failType lg) v True
         in if truthy act then storeDispatch st a act else ([], None))
      else if isError v then
        storeDispatch st a (if truthy (get v ''type'') then v else unhandled v)
      else if truthy v \<and> objectOrFunction v then storeDispatch st a v
      else storeDispatch st a (unhandled v))"

section \<open>The lifecycle instance (createLogicAction$.js)\<close>

text \<open>
  The streams of the source are those of RxJS 5, and the model relies on the following
  of their behaviour.
  \<^item> A subject hands a value to its subscribers in the order in which they subscribed,
    and to those only that had subscribed when the value arrived.
  \<^item> A subject that has completed ignores \<open>next\<close> and \<open>complete\<close>.
  \<^item> \<open>mergeAll\<close> subscribes to each stream it is given, passes on what they emit, fails
    when one of them fails, and completes when its source has completed and every inner
    stream has.
  \<^item> \<open>takeUntil(cancel$)\<close> completes its stream when \<open>cancel$\<close> emits, and subscribes to
    \<open>cancel$\<close> before it subscribes to its source.
  \<^item> \<open>do(f, g)\<close> turns an exception thrown by \<open>f\<close> or \<open>g\<close> into an error notification.
  \<^item> \<open>Observable.of(v)\<close> emits \<open>v\<close> and completes, \<open>Observable.throw(e)\<close> fails with
    \<open>e\<close>, both while being subscribed to.

  Left out: the unit's name, the dependencies and \<open>getState\<close> handed to the hooks, and the
  \<open>warnTimeout\<close> timer, which does nothing but log.

  The state one call of \<open>createLogicAction$\<close> closes over.
  \<^item> \<open>srcAction\<close>: the matched action; \<open>depAction\<close>: \<open>depObj.action\<close>;
  \<^item> \<open>obsStopped\<close>: \<open>logicAction$\<close> delivers nothing more downstream (it completed, its
    \<open>take(1)\<close> was served, or its \<open>takeUntil(cancel$)\<close> fired);
  \<^item> \<open>cancelStopped\<close>: \<open>cancelled$\<close> calls its subscriber no more (its \<open>take(1)\<close> was
    served, or it was completed);
  \<^item> \<open>rootStopped\<close>: \<open>dispatch$.complete()\<close> has been called;
  \<^item> \<open>active\<close>: the inner streams \<open>mergeAll\<close> is still subscribed to;
  \<^item> \<open>queueClosed\<close>: the subscriber of \<open>dispatch$\<close> has seen \<open>complete\<close> or \<open>error\<close>
    (also through \<open>takeUntil(cancel$)\<close>), so \<open>end\<close> has been reported.
\<close>

record inst =
  srcAction :: val
  depAction :: val
  interceptComplete :: bool
  obsStopped :: bool
  cancelStopped :: bool
  rootStopped :: bool
  active :: nat
  queueClosed :: bool

definition newInst :: "val \<Rightarrow> inst" where
  "newInst a =
     \<lparr>srcAction = a, depAction = a, interceptComplete = False, obsStopped = False,
      cancelStopped = False, rootStopped = False, active = 0, queueClosed = False\<rparr>"

text \<open>
  The \<open>error\<close> and \<open>complete\<close> callbacks of the subscriber of \<open>dispatch$\<close>: report
  \<open>end\<close>, then complete and unsubscribe \<open>cancelled$\<close>.
\<close>

definition emitEnd :: "inst \<Rightarrow> inst \<times> effect list" where
  "emitEnd s =
     (s\<lparr>queueClosed := True, cancelStopped := True\<rparr>,
      [Monitor \<lparr>op = OpEnd, action = srcAction s, arg = Undefined\<rparr>])"

text \<open>
  A value reaches \<open>do(mapToActionAndDispatch, mapErrorToActionAndDispatch)\<close>. When the
  callback throws, \<open>do\<close> hands the exception on as an error notification, which ends the
  queue.
\<close>

definition queueNext :: "logic \<Rightarrow> store \<Rightarrow> inst \<Rightarrow> val \<Rightarrow> inst \<times> effect list" where
  "queueNext lg st s v =
     (if queueClosed s then (s, [])
      else (case mapToActionAndDispatch lg st (srcAction s) v of
              (es, None) \<Rightarrow> (s, es)
            | (es, Some e) \<Rightarrow> (fst (emitEnd s), es @ snd (emitEnd s))))"

definition queueError :: "logic \<Rightarrow> store \<Rightarrow> inst \<Rightarrow> val \<Rightarrow> inst \<times> effect list" where
  "queueError lg st s e =
     (if queueClosed s then (s, [])
      else (fst (emitEnd s),
            fst (mapErrorToActionAndDispatch lg st (srcAction s) e) @ snd (emitEnd s)))"

text \<open>\<open>mergeAll\<close> completes once its source has completed and no inner stream is active.\<close>

definition queueComplete :: "inst \<Rightarrow> inst \<times> effect list" where
  "queueComplete s =
     (if \<not> queueClosed s \<and> rootStopped s \<and> active s = 0 then emitEnd s else (s, []))"

definition innerComplete :: "inst \<Rightarrow> inst \<times> effect list" where
  "innerComplete s =
     (if queueClosed s \<or> active s = 0 then (s, [])
      else queueComplete (s\<lparr>active := active s - 1\<rparr>))"

fun feed :: "logic \<Rightarrow> store \<Rightarrow> inst \<Rightarrow> val list \<Rightarrow> inst \<times> effect list" where
  "feed lg st s [] = (s, [])"
| "feed lg st s (v # vs) =
     (let r1 = queueNext lg st s v; r2 = feed lg st (fst r1) vs
      in (fst r2, snd r1 @ snd r2))"

text \<open>
  The four-way choice inside \<open>dispatch\<close>: an observable as it is, a promise through
  \<open>fromPromise\<close>, an \<open>Error\<close> through \<open>Observable.throw\<close>, anything else through
  \<open>Observable.of\<close>.
\<close>

fun toObservable :: "dval \<Rightarrow> val list \<times> fin" where
  "toObservable (DObs vs f) = (vs, f)"
| "toObservable DPromise = ([], StaysOpen)"
| "toObservable (DVal v) = (if isError v then ([], Errors v) else ([v], Completes))"

text \<open>
  \<open>dispatch$.next(stream)\<close>: a stopped subject, or one whose only subscriber has gone,
  drops it; otherwise \<open>mergeAll\<close> subscribes to the stream.
\<close>

definition rootNext :: "logic \<Rightarrow> store \<Rightarrow> inst \<Rightarrow> val list \<times> fin \<Rightarrow> inst \<times> effect list" where
  "rootNext lg st s d =
     (if rootStopped s \<or> queueClosed s then (s, [])
      else (let r1 = feed lg st (s\<lparr>active := active s + 1\<rparr>) (fst d);
                r2 = (case snd d of
                        Completes \<Rightarrow> innerComplete (fst r1)
                      | Errors e \<Rightarrow> queueError lg st (fst r1) e
                      | StaysOpen \<Rightarrow> (fst r1, []))
            in (fst r2, snd r1 @ snd r2)))"

text \<open>\<open>dispatch$.complete()\<close>, which is also \<open>done()\<close>.\<close>

definition rootComplete :: "inst \<Rightarrow> inst \<times> effect list" where
  "rootComplete s =
     (if rootStopped s then (s, []) else queueComplete (s\<lparr>rootStopped := True\<rparr>))"

definition applyDispatchDefaults :: "dopts \<Rightarrow> bool" where
  "applyDispatchDefaults options = (case options of None \<Rightarrow> False | Some b \<Rightarrow> b)"

definition dispatch :: "logic \<Rightarrow> store \<Rightarrow> inst \<Rightarrow> dval \<Rightarrow> dopts \<Rightarrow> inst \<times> effect list" where
  "dispatch lg st s act options =
     (let allowMore = applyDispatchDefaults options;
          r1 = (if act \<noteq> DVal Undefined then rootNext lg st s (toObservable act) else (s, []));
          r2 = (if \<not> (dispatchMultiple lg \<or> allowMore) then rootComplete (fst r1)
                else (fst r1, []))
      in (fst r2, snd r1 @ snd r2))"

text \<open>The calls a process hook makes while it runs, in order.\<close>

fun runCmds :: "logic \<Rightarrow> store \<Rightarrow> inst \<Rightarrow> cmd list \<Rightarrow> inst \<times> effect list" where
  "runCmds lg st s [] = (s, [])"
| "runCmds lg st s (c # cs) =
     (let r1 = (case c of CallDispatch d options \<Rightarrow> dispatch lg st s d options
                        | CallDone \<Rightarrow> rootComplete s
                        | Poke q \<Rightarrow> (s, [Side q]));
          r2 = runCmds lg st (fst r1) cs
      in (fst r2, snd r1 @ snd r2))"

text \<open>
  The \<open>if (shouldProcess)\<close> branch of \<open>handleNextOrDispatch\<close>: \<open>depObj.action\<close> becomes
  \<open>act || action\<close>, the process hook runs inside \<open>try\<close>, its return value is dispatched
  when \<open>dispatchReturn\<close> is set, and what it throws is logged and dispatched as
  \<open>Observable.throw(err)\<close>.
\<close>

definition runProcess :: "logic \<Rightarrow> store \<Rightarrow> inst \<Rightarrow> val \<Rightarrow> inst \<times> effect list" where
  "runProcess lg st s act =
     (let s1 = s\<lparr>depAction := (if truthy act then act else srcAction s)\<rparr>;
          hook = process lg (depAction s1);
          r2 = runCmds lg st s1 (fst hook);
          r3 = (case snd hook of
                  Returns retValue \<Rightarrow>
                    (if dispatchReturn lg then
                       (if retValue = DVal Undefined then rootComplete (fst r2)
                        else dispatch lg st (fst r2) retValue None)
                     else (fst r2, []))
                | Throws err \<Rightarrow>
                    (let r = dispatch lg st (fst r2) (DObs [] (Errors err)) None
                     in (fst r, ConsoleError # snd r)))
      in (fst r3, ProcessCalled (depAction s1) # snd r2 @ snd r3))"

definition applyAllowRejectNextDefaults :: "aopts \<Rightarrow> useDispatch" where
  "applyAllowRejectNextDefaults options = (case options of None \<Rightarrow> Auto | Some u \<Rightarrow> u)"

definition shouldDispatch :: "val \<Rightarrow> val \<Rightarrow> useDispatch \<Rightarrow> bool" where
  "shouldDispatch a act u =
     (if \<not> truthy act then False
      else (case u of Auto \<Rightarrow> get act ''type'' \<noteq> get a ''type'' | Use b \<Rightarrow> b))"

definition postIfDefinedOrComplete :: "inst \<Rightarrow> val \<Rightarrow> inst \<times> effect list" where
  "postIfDefinedOrComplete s act =
     (s\<lparr>interceptComplete := True, obsStopped := True\<rparr>,
      (if truthy act \<and> \<not> obsStopped s then [Forward act] else []))"

definition handleNextOrDispatch ::
  "logic \<Rightarrow> store \<Rightarrow> inst \<Rightarrow> bool \<Rightarrow> val \<Rightarrow> aopts \<Rightarrow> inst \<times> effect list" where
  "handleNextOrDispatch lg st s shouldProcess act options =
     (let u = applyAllowRejectNextDefaults options;
          a = srcAction s;
          r1 = (if shouldDispatch a act u then
                  (let r = dispatch lg st (s\<lparr>interceptComplete := True\<rparr>)
                             (DVal (wrapActionForIntercept act)) (Some True)
                   in ((fst r)\<lparr>obsStopped := True\<rparr>,
                       Monitor \<lparr>op = OpNextDisp, action = a, arg = act\<rparr> # snd r))
                else if truthy act then
                  (let r = postIfDefinedOrComplete s act
                   in (fst r, Monitor \<lparr>op = OpNext, action = a, arg = act\<rparr> # snd r))
                else
                  (let r = postIfDefinedOrComplete (s\<lparr>interceptComplete := True\<rparr>) act
                   in (fst r, Monitor \<lparr>op = OpFiltered, action = a, arg = Undefined\<rparr> # snd r)));
          r2 = (if shouldProcess then runProcess lg st (fst r1) act
                else rootComplete (fst r1))
      in (fst r2, snd r1 @ snd r2))"

text \<open>
  The subscriber of \<open>cancelled$\<close>: it is called once at most, and not after \<open>cancelled$\<close>
  was completed.
\<close>

definition cancelledFires :: "inst \<Rightarrow> inst \<times> effect list" where
  "cancelledFires s =
     (if cancelStopped s then (s, [])
      else (s\<lparr>cancelStopped := True\<rparr>,
            [Monitor \<lparr>op = (if \<not> interceptComplete s then OpCancelled else OpDispCancelled),
                      action = srcAction s, arg = Undefined\<rparr>]))"

text \<open>
  The synchronous run of the intercept hook: \<open>allow\<close> is
  \<open>handleNextOrDispatch(true, act, options)\<close> and \<open>reject\<close> is
  \<open>handleNextOrDispatch(false, act, options)\<close>.
\<close>

fun runIcmds :: "logic \<Rightarrow> store \<Rightarrow> inst \<Rightarrow> icmd list \<Rightarrow> inst \<times> effect list" where
  "runIcmds lg st s [] = (s, [])"
| "runIcmds lg st s (c # cs) =
     (let r1 = (case c of CallAllow act options \<Rightarrow> handleNextOrDispatch lg st s True act options
                        | CallReject act options \<Rightarrow> handleNextOrDispatch lg st s False act options
                        | IPoke q \<Rightarrow> (s, [Side q]));
          r2 = runIcmds lg st (fst r1) cs
      in (fst r2, snd r1 @ snd r2))"

text \<open>
  \<open>createLogicAction$\<close> followed by the subscription \<open>mergeMap\<close> makes at once: \<open>begin\<close>
  is reported, then \<open>start()\<close> runs the intercept hook. Nothing catches what the hook
  throws: the exception leaves the core.
\<close>

definition createLogicAction :: "logic \<Rightarrow> store \<Rightarrow> val \<Rightarrow> inst \<times> effect list" where
  "createLogicAction lg st a =
     (let begin = Monitor \<lparr>op = OpBegin, action = a, arg = Undefined\<rparr>;
          hook = intercept lg a;
          r = runIcmds lg st (newInst a) (fst hook)
      in (fst r, begin # snd r @ (case snd hook of None \<Rightarrow> [] | Some e \<Rightarrow> [Escapes e])))"

text \<open>Notifications of a stream or promise that was dispatched and is still open.\<close>

definition innerNext :: "logic \<Rightarrow> store \<Rightarrow> val \<Rightarrow> inst \<Rightarrow> inst \<times> effect list" where
  "innerNext lg st v s = (if active s = 0 then (s, []) else queueNext lg st s v)"

definition innerError :: "logic \<Rightarrow> store \<Rightarrow> val \<Rightarrow> inst \<Rightarrow> inst \<times> effect list" where
  "innerError lg st e s = (if active s = 0 then (s, []) else queueError lg st s e)"

section \<open>The pipeline of one unit (logicWrapper.js, applyLogic)\<close>

text \<open>
  The subscriber of \<open>actionOut$\<close> in \<open>applyLogic\<close>: \<open>next(action)\<close> inside \<open>try\<close>, a
  \<open>nextError\<close> event when it throws, and \<open>bottom\<close> in either case.
\<close>

definition errMessage :: "val \<Rightarrow> val" where
  "errMessage err = (if truthy err \<and> truthy (get err ''message'') then get err ''message'' else err)"

definition subscriber :: "store \<Rightarrow> val \<Rightarrow> effect list" where
  "subscriber st a =
     NextCall a
     # map Side (nextPokes st a)
     @ (case nextThrows st a of
          None \<Rightarrow> []
        | Some err \<Rightarrow> [ConsoleError, Monitor \<lparr>op = OpNextError, action = a, arg = errMessage err\<rparr>])
     @ [Monitor \<lparr>op = OpBottom, action = Undefined, arg = a\<rparr>]"

fun concatP :: "pattern list \<Rightarrow> pattern \<Rightarrow> pattern list" where
  "concatP xs (PArr ys) = xs @ ys"
| "concatP xs p = xs @ [p]"

definition cancelTypes :: "logic \<Rightarrow> pattern list" where
  "cancelTypes lg =
     concatP (concatP [] (if patTruthy (ltype lg) \<and> latest lg then ltype lg else PArr []))
             (if patTruthy (cancelType lg) then cancelType lg else PArr [])"

text \<open>
  The pipeline: the instances created so far, in order of creation; everything done to
  the outside so far, each entry marked with the instance it comes from; the \<open>lastIndex\<close>
  of every regular expression; and the exception that has left the core, if one has.
\<close>

datatype tag = Core | Inst nat

record pipeline =
  insts :: "inst list"
  trace :: "(tag \<times> effect) list"
  lastIndex :: lastIndexes
  escaped :: "val option"

definition logE :: "tag \<Rightarrow> effect \<Rightarrow> pipeline \<Rightarrow> pipeline" where
  "logE t e ps = ps\<lparr>trace := trace ps @ [(t, e)]\<rparr>"

text \<open>A call on the queue of instance \<open>i\<close>; what comes of it is that instance's doing.\<close>

definition onQueue :: "nat \<Rightarrow> (inst \<Rightarrow> inst \<times> effect list) \<Rightarrow> pipeline \<Rightarrow> pipeline" where
  "onQueue i f ps =
     (if i < length (insts ps) then
        (let r = f (insts ps ! i)
         in ps\<lparr>insts := (insts ps)[i := fst r],
               trace := trace ps @ map (Pair (Inst i)) (snd r)\<rparr>)
      else ps)"

fun poke :: "logic \<Rightarrow> store \<Rightarrow> qevent \<Rightarrow> pipeline \<Rightarrow> pipeline" where
  "poke lg st (QDispatch i d options) ps = onQueue i (\<lambda>s. dispatch lg st s d options) ps"
| "poke lg st (QDone i) ps = onQueue i rootComplete ps"
| "poke lg st (QNext i v) ps = onQueue i (innerNext lg st v) ps"
| "poke lg st (QError i e) ps = onQueue i (innerError lg st e) ps"
| "poke lg st (QComplete i) ps = onQueue i innerComplete ps"

text \<open>
  Carrying out what an operation did, in order: a call of user code on a queue takes
  place where it was made, an exception that leaves the core is noted, and an action a
  unit forwards reaches the subscriber of \<open>actionOut$\<close> at once.
\<close>

fun act1 :: "logic \<Rightarrow> store \<Rightarrow> tag \<Rightarrow> effect \<Rightarrow> pipeline \<Rightarrow> pipeline" where
  "act1 lg st t (Side q) ps = poke lg st q (logE t (Side q) ps)"
| "act1 lg st t (Escapes e) ps = (logE t (Escapes e) ps)\<lparr>escaped := Some e\<rparr>"
| "act1 lg st t e ps = logE t e ps"

fun acts :: "logic \<Rightarrow> store \<Rightarrow> tag \<Rightarrow> effect list \<Rightarrow> pipeline \<Rightarrow> pipeline" where
  "acts lg st t [] ps = ps"
| "acts lg st t (e # es) ps = acts lg st t es (act1 lg st t e ps)"

definition playHead :: "logic \<Rightarrow> store \<Rightarrow> tag \<Rightarrow> effect \<Rightarrow> pipeline \<Rightarrow> pipeline" where
  "playHead lg st t e ps =
     (case e of Forward a \<Rightarrow> acts lg st t (subscriber st a) (logE t e ps)
              | _ \<Rightarrow> act1 lg st t e ps)"

fun play :: "logic \<Rightarrow> store \<Rightarrow> tag \<Rightarrow> effect list \<Rightarrow> pipeline \<Rightarrow> pipeline" where
  "play lg st t [] ps = ps"
| "play lg st t (e # es) ps = play lg st t es (playHead lg st t e ps)"

definition onInst ::
  "logic \<Rightarrow> store \<Rightarrow> nat \<Rightarrow> (inst \<Rightarrow> inst \<times> effect list) \<Rightarrow> pipeline \<Rightarrow> pipeline" where
  "onInst lg st i f ps =
     (if i < length (insts ps) then
        (let r = f (insts ps ! i)
         in play lg st (Inst i) (snd r) (ps\<lparr>insts := (insts ps)[i := fst r]\<rparr>))
      else ps)"

definition spawn :: "logic \<Rightarrow> store \<Rightarrow> val \<Rightarrow> pipeline \<Rightarrow> pipeline" where
  "spawn lg st a ps =
     (let r = createLogicAction lg st a
      in play lg st (Inst (length (insts ps))) (snd r) (ps\<lparr>insts := insts ps @ [fst r]\<rparr>))"

text \<open>
  An earlier instance hears of an action through \<open>cancel$\<close>. Each subscription to
  \<open>cancel$\<close> filters \<open>action$\<close> for itself, so \<open>matchesType(cancelTypes, action.type)\<close> is
  called once for each subscription the instance still has, in the order they were
  made: the \<open>takeUntil(cancel$)\<close> of \<open>logicAction$\<close>, which is gone once \<open>logicAction$\<close> has
  stopped; \<open>cancelled$\<close>, subscribed for good; and the \<open>takeUntil(cancel$)\<close> of
  \<open>dispatch$\<close>, which is gone once the queue has closed.
\<close>

definition cancelDeliver :: "pattern list \<Rightarrow> val \<Rightarrow> nat \<Rightarrow> pipeline \<Rightarrow> pipeline" where
  "cancelDeliver cts ty i ps =
     (let s = insts ps ! i;
          m1 = (if obsStopped s then (False, lastIndex ps)
                else matchesType (PArr cts) ty (lastIndex ps));
          s1 = (if fst m1 then s\<lparr>obsStopped := True\<rparr> else s);
          m2 = matchesType (PArr cts) ty (snd m1);
          r2 = (if fst m2 then cancelledFires s1 else (s1, []));
          m3 = (if queueClosed (fst r2) then (False, snd m2)
                else matchesType (PArr cts) ty (snd m2));
          r3 = (if fst m3 then emitEnd (fst r2) else (fst r2, []))
      in ps\<lparr>insts := (insts ps)[i := fst r3],
            trace := trace ps @ map (Pair (Inst i)) (snd r2 @ snd r3),
            lastIndex := snd m3\<rparr>)"

fun cancelAll :: "pattern list \<Rightarrow> val \<Rightarrow> nat list \<Rightarrow> pipeline \<Rightarrow> pipeline" where
  "cancelAll cts ty [] ps = ps"
| "cancelAll cts ty (i # js) ps = cancelAll cts ty js (cancelDeliver cts ty i ps)"

text \<open>
  An action enters: \<open>top\<close> is reported and the action goes to the subscribers of the
  shared \<open>action$\<close> in the order they subscribed. First the filter of
  \<open>nonMatchingAction$\<close>, which passes the action on when \<open>matchesType\<close> says no; then
  the filter of \<open>matchingAction$\<close>, which calls \<open>matchesType\<close> again and creates the new
  instance when it says yes; then the \<open>cancel$\<close> subscriptions of the instances that
  existed before. An exception that leaves the intercept hook of the new instance leaves
  the delivery with it: the subscriptions that come after are not served. Without any
  cancel type \<open>cancel$\<close> never emits.
\<close>

definition incoming :: "logic \<Rightarrow> store \<Rightarrow> val \<Rightarrow> pipeline \<Rightarrow> pipeline" where
  "incoming lg st a ps =
     (let ty = get a ''type'';
          n = length (insts ps);
          ps1 = logE Core (Monitor \<lparr>op = OpTop, action = a, arg = Undefined\<rparr>) ps;
          m1 = matchesType (ltype lg) ty (lastIndex ps1);
          ps2 = (if \<not> fst m1 then play lg st Core [Forward a] (ps1\<lparr>lastIndex := snd m1\<rparr>)
                 else ps1\<lparr>lastIndex := snd m1\<rparr>);
          m2 = matchesType (ltype lg) ty (lastIndex ps2);
          ps3 = (if fst m2 then spawn lg st a (ps2\<lparr>lastIndex := snd m2\<rparr>)
                 else ps2\<lparr>lastIndex := snd m2\<rparr>)
      in if escaped ps3 \<noteq> None \<or> cancelTypes lg = [] then ps3
         else cancelAll (cancelTypes lg) ty [0..<n] ps3)"

text \<open>
  What can happen to a pipeline: an action enters; the intercept hook of an instance
  calls allow or reject after it had returned; a process hook calls \<open>dispatch\<close> or \<open>done\<close>
  after it had returned; a stream or promise that was dispatched and is still open
  notifies.
\<close>

datatype event =
    Incoming val
  | InterceptCall nat bool val aopts
  | DispatchCall nat dval dopts
  | DoneCall nat
  | InnerNext nat val
  | InnerError nat val
  | InnerComplete nat

fun deliver :: "logic \<Rightarrow> store \<Rightarrow> pipeline \<Rightarrow> event \<Rightarrow> pipeline" where
  "deliver lg st ps (Incoming a) = incoming lg st a ps"
| "deliver lg st ps (InterceptCall i shouldProcess act options) =
     onInst lg st i (\<lambda>s. handleNextOrDispatch lg st s shouldProcess act options) ps"
| "deliver lg st ps (DispatchCall i d options) = poke lg st (QDispatch i d options) ps"
| "deliver lg st ps (DoneCall i) = poke lg st (QDone i) ps"
| "deliver lg st ps (InnerNext i v) = poke lg st (QNext i v) ps"
| "deliver lg st ps (InnerError i e) = poke lg st (QError i e) ps"
| "deliver lg st ps (InnerComplete i) = poke lg st (QComplete i) ps"

text \<open>
  The model follows the middleware up to the first exception that leaves the core; what
  the middleware does after that is not followed.
\<close>

definition step :: "logic \<Rightarrow> store \<Rightarrow> pipeline \<Rightarrow> event \<Rightarrow> pipeline" where
  "step lg st ps ev = (if escaped ps \<noteq> None then ps else deliver lg st ps ev)"

definition run :: "logic \<Rightarrow> store \<Rightarrow> pipeline \<Rightarrow> event list \<Rightarrow> pipeline" where
  "run lg st ps evs = foldl (step lg st) ps evs"

definition initial :: pipeline where
  "initial = \<lparr>insts = [], trace = [], lastIndex = (\<lambda>i. 0), escaped = None\<rparr>"

text \<open>The monitor events of a trace, and the instance states that are final.\<close>

fun monitorOf :: "(tag \<times> effect) list \<Rightarrow> mevent list" where
  "monitorOf [] = []"
| "monitorOf ((t, Monitor m) # xs) = m # monitorOf xs"
| "monitorOf (x # xs) = monitorOf xs"

section \<open>Observations on effects\<close>

text \<open>An effect that hands an action to \<open>store.dispatch\<close>, or reports doing so.\<close>

fun isDispatch :: "effect \<Rightarrow> bool" where
  "isDispatch (StoreDispatch v) = True"
| "isDispatch (Monitor m) = (op m = OpDispatch)"
| "isDispatch e = False"

text \<open>An effect that passes an action on downstream.\<close>

fun isForward :: "effect \<Rightarrow> bool" where
  "isForward (Forward v) = True"
| "isForward (NextCall v) = True"
| "isForward e = False"

text \<open>An exception on its way out of the core.\<close>

fun isEscape :: "effect \<Rightarrow> bool" where
  "isEscape (Escapes e) = True"
| "isEscape e = False"

text \<open>A log entry, or a \<open>nextError\<close> report.\<close>

fun isReport :: "effect \<Rightarrow> bool" where
  "isReport ConsoleError = True"
| "isReport (Monitor m) = (op m = OpNextError)"
| "isReport e = False"

text \<open>The actions given to \<open>store.dispatch\<close>, in order.\<close>

fun storeCalls :: "effect list \<Rightarrow> val list" where
  "storeCalls [] = []"
| "storeCalls (StoreDispatch a # es) = a # storeCalls es"
| "storeCalls (e # es) = storeCalls es"

text \<open>Instance \<open>i\<close> dispatches nothing in this stretch of the trace.\<close>

definition quietFor :: "nat \<Rightarrow> (tag \<times> effect) list \<Rightarrow> bool" where
  "quietFor i xs = (\<forall>x \<in> set xs. fst x = Inst i \<longrightarrow> \<not> isDispatch (snd x))"



section \<open>Example units and stores\<close>

definition quiet :: store where
  "quiet = \<lparr>dispatchThrows = (\<lambda>a. None), nextThrows = (\<lambda>a. None), nextPokes = (\<lambda>a. [])\<rparr>"

definition boom :: val where
  "boom = Object ErrorInst [(''message'', Str ''boom'')]"

definition failing :: store where
  "failing = \<lparr>dispatchThrows = (\<lambda>a. Some boom), nextThrows = (\<lambda>a. Some boom),
               nextPokes = (\<lambda>a. [])\<rparr>"

definition mkAction :: "string \<Rightarrow> val" where
  "mkAction t = Object Plain [(''type'', Str t)]"

text \<open>
  The defaults of \<open>createLogic\<close>: \<open>identityValidation\<close> calls \<open>allow(action)\<close>;
  \<open>emptyProcess\<close> calls \<open>dispatch()\<close> and \<open>done()\<close> and, having three parameters, sets
  \<open>dispatchMultiple\<close>.
\<close>

definition identityValidation :: "val \<Rightarrow> icmd list \<times> val option" where
  "identityValidation a = ([CallAllow a None], None)"

definition emptyProcess :: "val \<Rightarrow> cmd list \<times> outcome" where
  "emptyProcess a = ([CallDispatch (DVal Undefined) None, CallDone], Returns (DVal Undefined))"

definition unitA :: logic where
  "unitA = \<lparr>ltype = PStr ''A'', cancelType = PAbsent, latest = False,
     intercept = identityValidation, process = emptyProcess,
     dispatchReturn = False, dispatchMultiple = True, successType = NoType, failType = NoType\<rparr>"

text \<open>A unit with a cancel type whose \<open>validate\<close> hook answers later.\<close>

definition unitAsync :: logic where
  "unitAsync = unitA\<lparr>cancelType := PStr ''CANCEL'', intercept := (\<lambda>a. ([], None))\<rparr>"


text \<open>Process hooks that throw: at once, and after calling \<open>done()\<close>.\<close>

definition unitThrow :: logic where
  "unitThrow = unitA\<lparr>process := (\<lambda>a. ([], Throws boom))\<rparr>"

definition unitDoneThrow :: logic where
  "unitDoneThrow = unitA\<lparr>process := (\<lambda>a. ([CallDone], Throws boom))\<rparr>"


text \<open>\<open>validate\<close> calls \<open>reject(undefined)\<close>.\<close>

definition unitReject :: logic where
  "unitReject = unitA\<lparr>intercept := (\<lambda>a. ([CallReject Undefined None], None)),
     process := (\<lambda>a. ([CallDispatch (DVal (mkAction ''B'')) None, CallDone],
                       Returns (DVal Undefined)))\<rparr>"






section \<open>Unfolding the model on concrete inputs\<close>

lemmas base_defs = quiet_def boom_def failing_def mkAction_def emptyProcess_def
  identityValidation_def unitA_def

lemmas model_defs = run_def step_def initial_def incoming_def logE_def onQueue_def playHead_def
  spawn_def createLogicAction_def newInst_def cancelTypes_def onInst_def cancelDeliver_def
  cancelledFires_def emitEnd_def handleNextOrDispatch_def test_def
  shouldDispatch_def applyAllowRejectNextDefaults_def postIfDefinedOrComplete_def runProcess_def
  dispatch_def applyDispatchDefaults_def rootComplete_def rootNext_def queueComplete_def
  queueNext_def queueError_def innerComplete_def innerNext_def innerError_def
  mapToActionAndDispatch_def mapErrorToActionAndDispatch_def storeDispatch_def
  isInterceptAction_def unwrapInterceptAction_def wrapActionForIntercept_def unhandled_def
  subscriber_def errMessage_def scanStep_def Let_def

section \<open>Patterns without a moving regular expression\<close>






section \<open>What every operation on an instance preserves\<close>

text \<open>The matched action of an instance never changes.\<close>

lemma srcAction_emitEnd: "srcAction (fst (emitEnd s)) = srcAction s"
  by (simp add: emitEnd_def)

lemma srcAction_queueNext: "srcAction (fst (queueNext lg st s v)) = srcAction s"
  by (simp add: queueNext_def emitEnd_def split: prod.splits option.splits)

lemma srcAction_queueError: "srcAction (fst (queueError lg st s v)) = srcAction s"
  by (simp add: queueError_def emitEnd_def)

lemma srcAction_queueComplete: "srcAction (fst (queueComplete s)) = srcAction s"
  by (simp add: queueComplete_def emitEnd_def)

lemma srcAction_innerComplete: "srcAction (fst (innerComplete s)) = srcAction s"
  by (simp add: innerComplete_def srcAction_queueComplete)

lemma srcAction_feed: "srcAction (fst (feed lg st s vs)) = srcAction s"
  by (induction vs arbitrary: s) (simp_all add: Let_def srcAction_queueNext)

lemma srcAction_rootNext: "srcAction (fst (rootNext lg st s d)) = srcAction s"
  by (cases "snd d")
     (simp_all add: rootNext_def Let_def srcAction_feed srcAction_innerComplete srcAction_queueError)

lemma srcAction_rootComplete: "srcAction (fst (rootComplete s)) = srcAction s"
  by (simp add: rootComplete_def srcAction_queueComplete)

lemma srcAction_dispatch: "srcAction (fst (dispatch lg st s d options)) = srcAction s"
  by (simp add: dispatch_def Let_def srcAction_rootNext srcAction_rootComplete)

lemma srcAction_runCmds: "srcAction (fst (runCmds lg st s cs)) = srcAction s"
proof (induction cs arbitrary: s)
  case Nil
  then show ?case by simp
next
  case (Cons c cs)
  then show ?case
    by (cases c) (simp_all add: Let_def srcAction_dispatch srcAction_rootComplete)
qed

text \<open>Nothing the dispatch queue does passes an action on downstream.\<close>

lemma nf_emitEnd: "list_all (\<lambda>e. \<not> isForward e) (snd (emitEnd s))"
  by (simp add: emitEnd_def)













text \<open>Nothing the dispatch queue or a process hook does lets an exception out of the core.\<close>

lemma ne_emitEnd: "list_all (\<lambda>e. \<not> isEscape e) (snd (emitEnd s))"
  by (simp add: emitEnd_def)

lemma ne_mapTo: "list_all (\<lambda>e. \<not> isEscape e) (fst (mapToActionAndDispatch lg st a v))"
  by (simp add: mapToActionAndDispatch_def storeDispatch_def Let_def)

lemma ne_mapErr: "list_all (\<lambda>e. \<not> isEscape e) (fst (mapErrorToActionAndDispatch lg st a v))"
  by (simp add: mapErrorToActionAndDispatch_def storeDispatch_def Let_def)

lemma ne_queueNext: "list_all (\<lambda>e. \<not> isEscape e) (snd (queueNext lg st s v))"
  using ne_mapTo[of lg st "srcAction s" v]
  by (auto simp: queueNext_def emitEnd_def split: prod.splits option.splits)

lemma ne_queueError: "list_all (\<lambda>e. \<not> isEscape e) (snd (queueError lg st s v))"
  by (simp add: queueError_def emitEnd_def ne_mapErr)

lemma ne_queueComplete: "list_all (\<lambda>e. \<not> isEscape e) (snd (queueComplete s))"
  by (simp add: queueComplete_def emitEnd_def)

lemma ne_innerComplete: "list_all (\<lambda>e. \<not> isEscape e) (snd (innerComplete s))"
  by (simp add: innerComplete_def ne_queueComplete)

lemma ne_feed: "list_all (\<lambda>e. \<not> isEscape e) (snd (feed lg st s vs))"
  by (induction vs arbitrary: s) (simp_all add: Let_def ne_queueNext)

lemma ne_rootNext: "list_all (\<lambda>e. \<not> isEscape e) (snd (rootNext lg st s d))"
  by (cases "snd d") (simp_all add: rootNext_def Let_def ne_feed ne_innerComplete ne_queueError)

lemma ne_rootComplete: "list_all (\<lambda>e. \<not> isEscape e) (snd (rootComplete s))"
  by (simp add: rootComplete_def ne_queueComplete)

lemma ne_dispatch: "list_all (\<lambda>e. \<not> isEscape e) (snd (dispatch lg st s d options))"
  by (simp add: dispatch_def Let_def ne_rootNext ne_rootComplete)

lemma ne_runCmds: "list_all (\<lambda>e. \<not> isEscape e) (snd (runCmds lg st s cs))"
proof (induction cs arbitrary: s)
  case Nil
  then show ?case by simp
next
  case (Cons c cs)
  then show ?case
    by (cases c) (simp_all add: Let_def ne_dispatch ne_rootComplete)
qed

lemma ne_runProcess: "list_all (\<lambda>e. \<not> isEscape e) (snd (runProcess lg st s act))"
proof -
  let ?s1 = "s\<lparr>depAction := (if truthy act then act else srcAction s)\<rparr>"
  show ?thesis
    by (cases "snd (process lg (depAction ?s1))")
       (simp_all add: runProcess_def Let_def ne_runCmds ne_dispatch ne_rootComplete)
qed

text \<open>Once the queue of an instance is closed it stays closed and dispatches nothing.\<close>

lemma emitEnd_closed: "queueClosed (fst (emitEnd s))"
  by (simp add: emitEnd_def)



lemma queueComplete_closed: "queueClosed s \<Longrightarrow> queueComplete s = (s, [])"
  by (simp add: queueComplete_def)








lemma throw_dispatch:
  "snd (dispatch lg st s (DObs [] (Errors err)) None)
     = (if rootStopped s \<or> queueClosed s then []
        else fst (mapErrorToActionAndDispatch lg st (srcAction s) err)
             @ [Monitor \<lparr>op = OpEnd, action = srcAction s, arg = Undefined\<rparr>])"
  by (simp add: dispatch_def rootNext_def queueError_def emitEnd_def rootComplete_def
      queueComplete_def applyDispatchDefaults_def Let_def)

lemma ne_handle:
  "list_all (\<lambda>e. \<not> isEscape e) (snd (handleNextOrDispatch lg st s sp act options))"
  by (simp add: handleNextOrDispatch_def Let_def postIfDefinedOrComplete_def ne_dispatch
      ne_runProcess ne_rootComplete)

section \<open>The pipeline seen from one instance\<close>




lemma quietFor_none: "list_all (\<lambda>e. \<not> isDispatch e) es \<Longrightarrow> quietFor i (map (Pair t) es)"
  by (auto simp: quietFor_def list_all_iff)






















lemma cancelledFires_props:
  "queueClosed (fst (cancelledFires s)) = queueClosed s
   \<and> list_all (\<lambda>e. \<not> isDispatch e) (snd (cancelledFires s))"
  by (simp add: cancelledFires_def)














section \<open>The matcher\<close>




section \<open>One store per middleware\<close>

lemma mw_all_saved:
  "mw_all (Some a) ss = Inr saved \<Longrightarrow> saved = Some a \<and> (\<forall>s \<in> set ss. s = Some a)"
proof (induction ss)
  case Nil
  then show ?case by simp
next
  case (Cons s ss)
  then show ?case by (auto simp: mw_def split: if_splits)
qed

lemma mw_all_one_store:
  "mw_all saved ss = Inr saved' \<Longrightarrow> Some a \<in> set ss \<Longrightarrow> Some b \<in> set ss \<Longrightarrow> a = b"
proof (induction ss arbitrary: saved)
  case Nil
  then show ?case by simp
next
  case (Cons s ss)
  show ?case
  proof (cases "mw saved s")
    case (Inl e)
    then show ?thesis using Cons.prems by simp
  next
    case (Inr x)
    then have xs: "x = s" by (auto simp: mw_def split: if_splits)
    have rest: "mw_all s ss = Inr saved'" using Cons.prems(1) Inr xs by simp
    show ?thesis
    proof (cases s)
      case None
      then show ?thesis using Cons.IH[OF rest] Cons.prems(2,3) by auto
    next
      case (Some c)
      then have all: "\<forall>t \<in> set ss. t = Some c" using mw_all_saved rest by blast
      have "a = c" using all Some Cons.prems(2) by auto
      moreover have "b = c" using all Some Cons.prems(3) by auto
      ultimately show ?thesis by simp
    qed
  qed
qed

text \<open>
  C9: once the middleware function has been applied to a store, applying it to a different
  store object throws, and applying it to the same store object again is accepted; so
  over any run of applications that does not throw, every store object given is the same
  one.
\<close>

theorem mw_one_store:
  "mw (Some a) (Some b) = (if b = a then Inr (Some a) else Inl MultipleStores)
   \<and> (mw_all None ss = Inr saved \<and> Some a \<in> set ss \<and> Some b \<in> set ss \<longrightarrow> a = b)"
  using mw_all_one_store[of None ss saved a b] by (auto simp: mw_def)

text \<open>Two stores 1 and 2: the second is refused after the first, the first is accepted again.\<close>

theorem mw_one_store_witness:
  "mw (Some 1) (Some 2) = Inl MultipleStores
   \<and> mw (Some 1) (Some 1) = Inr (Some 1)
   \<and> mw_all None [None, Some 1, Some 1] = Inr (Some 1)
   \<and> mw_all None [Some 1, Some 2] = Inl MultipleStores"
  using mw_one_store [of 1 2 "[None, Some 1, Some 1]" "Some 1"]
    mw_one_store [of 1 1 "[None, Some 1, Some 1]" "Some 1"]
  by (simp add: mw_def)

section \<open>The pending counter\<close>

text \<open>
  C1: the pending counter folded from the monitor events is never negative, and is 0 once
  every instance has ended. The run below breaks both halves. A unit with a cancel type
  has a \<open>validate\<close> hook that answers late; \<open>{type: 'A'}\<close> enters, then
  \<open>{type: 'CANCEL'}\<close>, and only then does the hook call \<open>allow(undefined)\<close>. The
  cancellation reports \<open>cancelled\<close> and \<open>end\<close>, which brings the counter to 0, and the
  late call still reports \<open>filtered\<close>, which takes it to -1, with the one instance ended.
\<close>

theorem pending_goes_negative:
  "pendings 0 (monitorOf (trace (run unitAsync quiet initial
      [Incoming (mkAction ''A''), Incoming (mkAction ''CANCEL''),
       InterceptCall 0 True Undefined None])))
     = [1, 2, 3, 2, 1, 0, -1]
   \<and> map queueClosed (insts (run unitAsync quiet initial
      [Incoming (mkAction ''A''), Incoming (mkAction ''CANCEL''),
       InterceptCall 0 True Undefined None])) = [True]"
  by (simp add: base_defs unitAsync_def model_defs)

section \<open>Keeping only the latest instance\<close>




section \<open>A process hook that throws\<close>

text \<open>
  C3 as the code has it: what a process hook throws is caught and logged, and handed to
  \<open>dispatch\<close> as a failing stream. When the dispatch queue of the instance is still open
  after the calls the hook made before it threw, the error value goes through
  \<open>mapErrorToActionAndDispatch\<close> and the instance ends; when the queue is already
  stopped or closed, nothing more happens. Either way \<open>handleNextOrDispatch\<close> returns.
\<close>

theorem process_throw_dispatched_while_open:
  assumes "process lg (if truthy act then act else srcAction s) = (cmds, Throws err)"
    and "runCmds lg st (s\<lparr>depAction := (if truthy act then act else srcAction s)\<rparr>) cmds
           = (s2, es2)"
  shows "snd (runProcess lg st s act)
     = ProcessCalled (if truthy act then act else srcAction s) # es2 @ ConsoleError
       # (if rootStopped s2 \<or> queueClosed s2 then []
          else fst (mapErrorToActionAndDispatch lg st (srcAction s) err)
               @ [Monitor \<lparr>op = OpEnd, action = srcAction s, arg = Undefined\<rparr>])"
proof -
  have "srcAction s2 = srcAction s"
    using srcAction_runCmds[of lg st
        "s\<lparr>depAction := (if truthy act then act else srcAction s)\<rparr>" cmds] assms(2)
    by simp
  then show ?thesis
    using assms by (simp add: runProcess_def Let_def throw_dispatch)
qed

text \<open>A process hook that throws at once: the generic error action is dispatched, then \<open>end\<close>.\<close>

theorem process_throw_dispatched_while_open_witness:
  "process unitThrow (mkAction ''A'') = ([], Throws boom)
   \<and> snd (runProcess unitThrow quiet (newInst (mkAction ''A'')) (mkAction ''A''))
     = [ProcessCalled (mkAction ''A''), ConsoleError,
        Monitor \<lparr>op = OpDispatch, action = mkAction ''A'', arg = unhandled boom\<rparr>,
        StoreDispatch (unhandled boom),
        Monitor \<lparr>op = OpEnd, action = mkAction ''A'', arg = Undefined\<rparr>]"
  using process_throw_dispatched_while_open[of unitThrow "mkAction ''A''"
      "newInst (mkAction ''A'')" "[]" boom quiet
      "(newInst (mkAction ''A''))\<lparr>depAction := mkAction ''A''\<rparr>" "[]"]
  by (simp add: base_defs unitThrow_def model_defs)

text \<open>
  C3 as the claim has it fails for a process hook that calls \<open>done()\<close> and then throws:
  the exception is caught and logged, \<open>end\<close> has been reported already, and no error
  action reaches the store.
\<close>

theorem process_throw_after_done_counterexample:
  "snd (createLogicAction unitDoneThrow quiet (mkAction ''A''))
     = [Monitor \<lparr>op = OpBegin, action = mkAction ''A'', arg = Undefined\<rparr>,
        Monitor \<lparr>op = OpNext, action = mkAction ''A'', arg = mkAction ''A''\<rparr>,
        Forward (mkAction ''A''),
        ProcessCalled (mkAction ''A''),
        Monitor \<lparr>op = OpEnd, action = mkAction ''A'', arg = Undefined\<rparr>,
        ConsoleError]
   \<and> storeCalls (snd (createLogicAction unitDoneThrow quiet (mkAction ''A''))) = []"
  by (simp add: base_defs unitDoneThrow_def model_defs)

section \<open>Error values\<close>

text \<open>
  C4 as the code has it, for an error value that is not an intercept wrapper: with
  \<open>failType\<close> an action creator, its result is dispatched when truthy and nothing
  otherwise; with \<open>failType\<close> a non-empty string, \<open>{type: failType, payload: value,
  error: true}\<close> is dispatched; without \<open>failType\<close>, the value is dispatched as it is when
  it carries a truthy \<open>type\<close> or is an object or function that is not an \<open>Error\<close>, and is
  wrapped as \<open>UNHANDLED_LOGIC_ERROR\<close> otherwise.
\<close>

theorem error_value_mapping:
  assumes "\<not> isInterceptAction v"
  shows "storeCalls (fst (mapErrorToActionAndDispatch lg st a v)) =
    (case failType lg of
       TypeFn f \<Rightarrow> (if truthy (f v) then [f v] else [])
     | TypeStr (c # cs) \<Rightarrow>
         [Object Plain [(''type'', Str (c # cs)), (''payload'', v), (''error'', Bool True)]]
     | _ \<Rightarrow> (if truthy (get v ''type'') \<or> (truthy v \<and> objectOrFunction v \<and> \<not> isError v)
             then [v] else [unhandled v]))"
proof (cases "failType lg")
  case NoType
  then show ?thesis using assms
    by (cases v) (auto simp: mapErrorToActionAndDispatch_def storeDispatch_def)
next
  case (TypeStr x)
  then show ?thesis using assms
    by (cases x; cases v)
       (auto simp: mapErrorToActionAndDispatch_def storeDispatch_def typeVal_def Let_def)
next
  case (TypeFn f)
  then show ?thesis using assms
    by (auto simp: mapErrorToActionAndDispatch_def storeDispatch_def Let_def)
qed

text \<open>An \<open>Error\<close> without a type and no \<open>failType\<close>: the generic error action.\<close>

theorem error_value_mapping_witness:
  "\<not> isInterceptAction boom
   \<and> storeCalls (fst (mapErrorToActionAndDispatch unitA quiet (mkAction ''A'') boom))
       = [Object Plain [(''type'', Str ''UNHANDLED_LOGIC_ERROR''), (''payload'', boom),
                        (''error'', Bool True)]]"
  using error_value_mapping[of boom unitA quiet "mkAction ''A''"]
  by (simp add: base_defs isInterceptAction_def unhandled_def)

text \<open>
  C4 as the claim has it fails for a plain object without a \<open>type\<close>, such as
  \<open>{foo: 1}\<close>: it is not wrapped; it goes to the store as it is.
\<close>

theorem error_value_mapping_counterexample:
  "get (Object Plain [(''foo'', Num 1)]) ''type'' = Undefined
   \<and> storeCalls (fst (mapErrorToActionAndDispatch unitA quiet (mkAction ''A'')
        (Object Plain [(''foo'', Num 1)]))) = [Object Plain [(''foo'', Num 1)]]
   \<and> Object Plain [(''foo'', Num 1)] \<noteq> unhandled (Object Plain [(''foo'', Num 1)])"
  by (simp add: base_defs model_defs)

section \<open>Allowing and rejecting nothing\<close>





lemma runIcmds_pokes:
  "runIcmds lg st s (map IPoke qs @ cs)
     = (fst (runIcmds lg st s cs), map Side qs @ snd (runIcmds lg st s cs))"
  by (induction qs) (simp_all add: Let_def)

text \<open>
  C8: when the intercept hook calls \<open>reject(undefined)\<close>, \<open>filtered\<close> is reported and
  nothing else happens but, at most, the \<open>end\<close> of the instance: the process hook is not
  run and nothing is dispatched or passed on. When the hook makes that call before it
  returns, whatever it did to other queues before and whether or not it throws after,
  the instance reports \<open>begin\<close>, \<open>filtered\<close>, \<open>end\<close> and its queue is closed.
\<close>

theorem reject_undefined_filters:
  "(\<exists>es. snd (handleNextOrDispatch lg st s False Undefined options)
          = Monitor \<lparr>op = OpFiltered, action = srcAction s, arg = Undefined\<rparr> # es
      \<and> (es = [] \<or> es = [Monitor \<lparr>op = OpEnd, action = srcAction s, arg = Undefined\<rparr>]))
   \<and> (intercept lg a = (map IPoke qs @ [CallReject Undefined options], x) \<longrightarrow>
        snd (createLogicAction lg st a)
          = Monitor \<lparr>op = OpBegin, action = a, arg = Undefined\<rparr> # map Side qs
            @ [Monitor \<lparr>op = OpFiltered, action = a, arg = Undefined\<rparr>,
               Monitor \<lparr>op = OpEnd, action = a, arg = Undefined\<rparr>]
            @ (case x of None \<Rightarrow> [] | Some e \<Rightarrow> [Escapes e])
        \<and> queueClosed (fst (createLogicAction lg st a)))"
  by (simp add: createLogicAction_def runIcmds_pokes newInst_def handleNextOrDispatch_def
      shouldDispatch_def postIfDefinedOrComplete_def rootComplete_def queueComplete_def
      emitEnd_def Let_def)

text \<open>
  A unit whose process hook would dispatch \<open>{type: 'B'}\<close>, and whose \<open>validate\<close> calls
  \<open>reject(undefined)\<close>.
\<close>

theorem reject_undefined_filters_witness:
  "intercept unitReject (mkAction ''A'') = ([CallReject Undefined None], None)
   \<and> snd (createLogicAction unitReject quiet (mkAction ''A''))
       = [Monitor \<lparr>op = OpBegin, action = mkAction ''A'', arg = Undefined\<rparr>,
          Monitor \<lparr>op = OpFiltered, action = mkAction ''A'', arg = Undefined\<rparr>,
          Monitor \<lparr>op = OpEnd, action = mkAction ''A'', arg = Undefined\<rparr>]
   \<and> storeCalls (snd (createLogicAction unitReject quiet (mkAction ''A''))) = []"
  using reject_undefined_filters[of unitReject quiet "newInst (mkAction ''A'')" None
      "mkAction ''A''" "[]" None]
  by (simp add: base_defs unitReject_def)

section \<open>Exceptions of the consumer\<close>

text \<open>Nothing the dispatch queue does is logged or reported as \<open>nextError\<close>.\<close>

lemma nr_emitEnd: "list_all (\<lambda>e. \<not> isReport e) (snd (emitEnd s))"
  by (simp add: emitEnd_def)

lemma nr_mapTo: "list_all (\<lambda>e. \<not> isReport e) (fst (mapToActionAndDispatch lg st a v))"
  by (simp add: mapToActionAndDispatch_def storeDispatch_def Let_def)

lemma nr_mapErr: "list_all (\<lambda>e. \<not> isReport e) (fst (mapErrorToActionAndDispatch lg st a v))"
  by (simp add: mapErrorToActionAndDispatch_def storeDispatch_def Let_def)

lemma nr_queueNext: "list_all (\<lambda>e. \<not> isReport e) (snd (queueNext lg st s v))"
  using nr_mapTo[of lg st "srcAction s" v]
  by (auto simp: queueNext_def emitEnd_def split: prod.splits option.splits)

lemma nr_queueError: "list_all (\<lambda>e. \<not> isReport e) (snd (queueError lg st s v))"
  by (simp add: queueError_def emitEnd_def nr_mapErr)

lemma nr_queueComplete: "list_all (\<lambda>e. \<not> isReport e) (snd (queueComplete s))"
  by (simp add: queueComplete_def emitEnd_def)

lemma nr_innerComplete: "list_all (\<lambda>e. \<not> isReport e) (snd (innerComplete s))"
  by (simp add: innerComplete_def nr_queueComplete)

lemma nr_feed: "list_all (\<lambda>e. \<not> isReport e) (snd (feed lg st s vs))"
  by (induction vs arbitrary: s) (simp_all add: Let_def nr_queueNext)

lemma nr_rootNext: "list_all (\<lambda>e. \<not> isReport e) (snd (rootNext lg st s d))"
  by (cases "snd d") (simp_all add: rootNext_def Let_def nr_feed nr_innerComplete nr_queueError)

lemma nr_rootComplete: "list_all (\<lambda>e. \<not> isReport e) (snd (rootComplete s))"
  by (simp add: rootComplete_def nr_queueComplete)

lemma nr_dispatch: "list_all (\<lambda>e. \<not> isReport e) (snd (dispatch lg st s d options))"
  by (simp add: dispatch_def Let_def nr_rootNext nr_rootComplete)

lemma escaped_onQueue: "escaped (onQueue i f ps) = escaped ps"
  by (simp add: onQueue_def Let_def)

lemma escaped_poke: "escaped (poke lg st q ps) = escaped ps"
  by (cases q) (simp_all add: escaped_onQueue)

lemma escaped_acts:
  "list_all (\<lambda>e. \<not> isEscape e) es \<Longrightarrow> escaped (acts lg st t es ps) = escaped ps"
proof (induction es arbitrary: ps)
  case Nil
  then show ?case by simp
next
  case (Cons e es)
  then show ?case by (cases e) (simp_all add: logE_def escaped_poke)
qed

lemma subscriber_no_escape: "list_all (\<lambda>e. \<not> isEscape e) (subscriber st a)"
  by (simp add: subscriber_def list_all_iff split: option.splits) auto

text \<open>
  C7 as the code has it: an exception of the consumer does not leave the core and does
  not stop the pipeline, on either way to the consumer. When \<open>next\<close> throws for an action
  that reaches the bottom of the pipeline, the exception is caught, logged and reported
  as \<open>nextError\<close>, and \<open>bottom\<close> is reported after it. When \<open>store.dispatch\<close> throws for a
  value drained from a dispatch queue, the exception is neither logged nor reported as
  \<open>nextError\<close>: the queue ends, \<open>end\<close> is reported, and that is all.
\<close>

theorem consumer_exception_absorbed:
  "(nextThrows st a = Some err \<longrightarrow>
      subscriber st a
        = NextCall a # map Side (nextPokes st a)
          @ [ConsoleError, Monitor \<lparr>op = OpNextError, action = a, arg = errMessage err\<rparr>,
             Monitor \<lparr>op = OpBottom, action = Undefined, arg = a\<rparr>])
   \<and> escaped (play lg st t [Forward a] ps) = escaped ps
   \<and> (\<not> queueClosed s \<and> mapToActionAndDispatch lg st (srcAction s) v = (es, Some err) \<longrightarrow>
        queueNext lg st s v
          = (s\<lparr>queueClosed := True, cancelStopped := True\<rparr>,
             es @ [Monitor \<lparr>op = OpEnd, action = srcAction s, arg = Undefined\<rparr>])
        \<and> list_all (\<lambda>e. \<not> isReport e) es)
   \<and> list_all (\<lambda>e. \<not> isEscape e \<and> \<not> isReport e) (snd (dispatch lg st s d options))
   \<and> escaped (poke lg st q ps) = escaped ps"
proof -
  have a: "nextThrows st a = Some err \<longrightarrow>
      subscriber st a
        = NextCall a # map Side (nextPokes st a)
          @ [ConsoleError, Monitor \<lparr>op = OpNextError, action = a, arg = errMessage err\<rparr>,
             Monitor \<lparr>op = OpBottom, action = Undefined, arg = a\<rparr>]"
    by (simp add: subscriber_def)
  have b: "escaped (play lg st t [Forward a] ps) = escaped ps"
    using escaped_acts[OF subscriber_no_escape, of lg st t st a "logE t (Forward a) ps"]
    by (simp add: playHead_def logE_def)
  have c: "\<not> queueClosed s \<and> mapToActionAndDispatch lg st (srcAction s) v = (es, Some err) \<longrightarrow>
        queueNext lg st s v
          = (s\<lparr>queueClosed := True, cancelStopped := True\<rparr>,
             es @ [Monitor \<lparr>op = OpEnd, action = srcAction s, arg = Undefined\<rparr>])
        \<and> list_all (\<lambda>e. \<not> isReport e) es"
    using nr_mapTo[of lg st "srcAction s" v] by (auto simp: queueNext_def emitEnd_def)
  have d: "list_all (\<lambda>e. \<not> isEscape e \<and> \<not> isReport e) (snd (dispatch lg st s d options))"
    using ne_dispatch[of lg st s d options] nr_dispatch[of lg st s d options]
    by (simp add: list_all_iff)
  show ?thesis using a b c d escaped_poke by blast
qed

text \<open>
  A store whose \<open>next\<close> and \<open>dispatch\<close> throw \<open>Error('boom')\<close>: an action the unit does not
  match, and a value drained from the queue of a fresh instance.
\<close>

theorem consumer_exception_absorbed_witness:
  "nextThrows failing (mkAction ''B'') = Some boom
   \<and> trace (incoming unitA failing (mkAction ''B'') initial)
       = map (Pair Core)
           [Monitor \<lparr>op = OpTop, action = mkAction ''B'', arg = Undefined\<rparr>,
            Forward (mkAction ''B''), NextCall (mkAction ''B''), ConsoleError,
            Monitor \<lparr>op = OpNextError, action = mkAction ''B'', arg = Str ''boom''\<rparr>,
            Monitor \<lparr>op = OpBottom, action = Undefined, arg = mkAction ''B''\<rparr>]
   \<and> escaped (incoming unitA failing (mkAction ''B'') initial) = None
   \<and> \<not> queueClosed (newInst (mkAction ''A''))
   \<and> queueNext unitA failing (newInst (mkAction ''A'')) (mkAction ''B'')
       = ((newInst (mkAction ''A''))\<lparr>queueClosed := True, cancelStopped := True\<rparr>,
          [Monitor \<lparr>op = OpDispatch, action = mkAction ''A'', arg = mkAction ''B''\<rparr>,
           StoreDispatch (mkAction ''B''),
           Monitor \<lparr>op = OpEnd, action = mkAction ''A'', arg = Undefined\<rparr>])"
  using consumer_exception_absorbed[of failing "mkAction ''B''" boom unitA Core initial
      "newInst (mkAction ''A'')" "mkAction ''B''"
      "[Monitor \<lparr>op = OpDispatch, action = mkAction ''A'', arg = mkAction ''B''\<rparr>,
        StoreDispatch (mkAction ''B'')]" "DVal Undefined" None "QDone 0"]
  by (simp add: base_defs model_defs)

text \<open>
  C7 as the claim has it fails on the way out of the dispatch queue: \<open>store.dispatch\<close>
  throws, \<open>mapToActionAndDispatch\<close> lets the exception through, and the instance reports
  \<open>dispatch\<close> and \<open>end\<close>, with neither a log nor a \<open>nextError\<close>.
\<close>

theorem store_dispatch_exception_counterexample:
  "mapToActionAndDispatch unitA failing (mkAction ''A'') (mkAction ''B'')
     = ([Monitor \<lparr>op = OpDispatch, action = mkAction ''A'', arg = mkAction ''B''\<rparr>,
         StoreDispatch (mkAction ''B'')], Some boom)
   \<and> snd (dispatch unitA failing (newInst (mkAction ''A'')) (DVal (mkAction ''B'')) None)
     = [Monitor \<lparr>op = OpDispatch, action = mkAction ''A'', arg = mkAction ''B''\<rparr>,
        StoreDispatch (mkAction ''B''),
        Monitor \<lparr>op = OpEnd, action = mkAction ''A'', arg = Undefined\<rparr>]"
  by (simp add: base_defs model_defs)

section \<open>Dispatching nothing\<close>



end
